theory Spec2Isabelle
  imports Complex_Main
begin

section \<open>Values of the host language\<close>

text \<open>
  Strings are lists of characters, one \<^typ>\<open>char\<close> per code unit, so \<^const>\<open>length\<close> is the
  source's \<open>.length\<close>.  A thrown value is an \<open>err\<close>: \<open>Error m\<close> is \<open>new Error(m)\<close>, the
  other constructors are the rejections of the file-system calls, each carrying the path.
\<close>

datatype err = Error string | ENOENT string | EISDIR string | ENOTDIR string | EPERM string

text \<open>
  A value of type \<open>unknown\<close> as the error logger and the \<open>catch\<close> clauses see it: absent,
  a string, or an error object.  \<open>truthy\<close> is the host language's truthiness, \<open>String_of\<close>
  its string conversion (\<open>`${error}`\<close>, \<open>String(error)\<close>).
\<close>

datatype unknown = Undefined | Str string | Thrown err

fun truthy :: "unknown \<Rightarrow> bool" where
  "truthy Undefined = False"
| "truthy (Str s) = (s \<noteq> [])"
| "truthy (Thrown e) = True"

fun err_message :: "err \<Rightarrow> string" where
  "err_message (Error m) = m"
| "err_message (ENOENT p) = ''ENOENT: no such file or directory, '' @ p"
| "err_message (EISDIR p) = ''EISDIR: illegal operation on a directory, '' @ p"
| "err_message (ENOTDIR p) = ''ENOTDIR: not a directory, '' @ p"
| "err_message (EPERM p) = ''EPERM: operation not permitted, '' @ p"

fun String_of :: "unknown \<Rightarrow> string" where
  "String_of Undefined = ''undefined''"
| "String_of (Str s) = s"
| "String_of (Thrown e) = ''Error: '' @ err_message e"

definition startsWith :: "string \<Rightarrow> string \<Rightarrow> bool" where
  "startsWith s p = (take (length p) s = p)"

definition endsWith :: "string \<Rightarrow> string \<Rightarrow> bool" where
  "endsWith s p = (length p \<le> length s \<and> drop (length s - length p) s = p)"

definition is_digit :: "char \<Rightarrow> bool" where
  "is_digit c = (c \<in> set ''0123456789'')"

definition digit_val :: "char \<Rightarrow> nat" where
  "digit_val c = of_char c - of_char CHR ''0''"

text \<open>\<open>Number.parseInt(num, 10)\<close> on a string of decimal digits.\<close>

definition parseInt :: "string \<Rightarrow> nat" where
  "parseInt num = foldl (\<lambda>a c. 10 * a + digit_val c) 0 num"

definition digit_char :: "nat \<Rightarrow> char" where
  "digit_char d = ''0123456789'' ! d"

text \<open>The decimal numeral of a natural number, and \<open>toString()\<close> of an integer.\<close>

fun decimal :: "nat \<Rightarrow> string" where
  "decimal n = (if n < 10 then [digit_char n] else decimal (n div 10) @ [digit_char (n mod 10)])"

definition int_toString :: "int \<Rightarrow> string" where
  "int_toString i = (if i < 0 then ''-'' @ decimal (nat (- i)) else decimal (nat i))"

section \<open>Config validator\<close>

definition sizeUnits :: "(char \<times> nat) list" where
  "sizeUnits = [(CHR ''B'', 1), (CHR ''K'', 1024), (CHR ''M'', 1024 ^ 2), (CHR ''G'', 1024 ^ 3)]"

definition timeUnits :: "(char \<times> nat) list" where
  "timeUnits = [(CHR ''s'', 1000), (CHR ''m'', 60 * 1000), (CHR ''h'', 60 * 60 * 1000),
     (CHR ''d'', 24 * 60 * 60 * 1000), (CHR ''M'', 30 * 24 * 60 * 60 * 1000)]"

text \<open>
  The two regular expressions \<open>/^(\d+)([BKMG])$/\<close> and \<open>/^(\d+)([smhdM])$/\<close>: one or more
  decimal digits followed by exactly one character of the class, anchored at both ends.
  The result is the pair of capture groups.
\<close>

definition exec_num_unit :: "string \<Rightarrow> string \<Rightarrow> (string \<times> char) option" where
  "exec_num_unit cls s =
     (if s \<noteq> [] \<and> butlast s \<noteq> [] \<and> list_all is_digit (butlast s) \<and> last s \<in> set cls
      then Some (butlast s, last s) else None)"

text \<open>\<open>!table[unit]\<close>: the unit is missing from the table or maps to zero.\<close>

definition no_unit :: "(char \<times> nat) list \<Rightarrow> char \<Rightarrow> bool" where
  "no_unit table unit = (case map_of table unit of None \<Rightarrow> True | Some v \<Rightarrow> v = 0)"

definition validateSize :: "string \<Rightarrow> err + unit" where
  "validateSize size_str =
     (case exec_num_unit ''BKMG'' size_str of
        None \<Rightarrow> Inl (Error (''Invalid size format: '' @ size_str @ ''. Expected format: <number><B|K|M|G>''))
      | Some (num, unit) \<Rightarrow>
          if parseInt num \<le> 0 then Inl (Error (''Size must be positive: '' @ size_str))
          else if no_unit sizeUnits unit then Inl (Error (''Unknown size unit: '' @ [unit]))
          else Inr ())"

definition validateInterval :: "string \<Rightarrow> err + unit" where
  "validateInterval interval =
     (case exec_num_unit ''smhdM'' interval of
        None \<Rightarrow> Inl (Error (''Invalid interval format: '' @ interval @ ''. Expected format: <number><s|m|h|d|M>''))
      | Some (num, unit) \<Rightarrow>
          if parseInt num \<le> 0 then Inl (Error (''Interval must be positive: '' @ interval))
          else if no_unit timeUnits unit then Inl (Error (''Unknown time unit: '' @ [unit]))
          else Inr ())"

definition validFormats :: "string list" where
  "validFormats = [''iso'', ''unix'', ''utc'', ''rfc2822'', ''epoch'']"

text \<open>\<open>validFormats.join(', ')\<close>.\<close>

fun join_with :: "string \<Rightarrow> string list \<Rightarrow> string" where
  "join_with sep [] = []"
| "join_with sep [x] = x"
| "join_with sep (x # y # ys) = x @ sep @ join_with sep (y # ys)"

definition validateTimestampFormat :: "string \<Rightarrow> err + unit" where
  "validateTimestampFormat format =
     (if format \<notin> set validFormats
      then Inl (Error (''Invalid timestampFormat: '' @ format @ ''. Expected one of: '' @ join_with '', '' validFormats))
      else Inr ())"

section \<open>Filename generator\<close>

text \<open>
  The platform: what the source calls and does not define, and what the path map of the
  file system below does not decide.
  \<^item> \<open>path.join\<close>;
  \<^item> the three renderings of a \<open>Date\<close>, each of the instant in milliseconds since the epoch;
    \<open>toString\<close> is the local-time rendering and depends on the time zone the process has at
    the moment of the call;
  \<^item> the compressor \<open>createGzip\<close> as a function on contents;
  \<^item> \<open>prettyFactory({colorize: false})\<close>, which returns the formatted line or throws;
  \<^item> \<open>rejects\<close>: the rejection, if any, of a call of the compression worker or of the
    \<open>rotated\<close> listener for a reason the path map does not show (permissions, a name too
    long, a vanished disk);
  \<^item> \<open>pipeline_rejects\<close>: the same for the streaming pipeline from a source to a destination
    (a missing parent directory, a full disk), with what the failed pipeline leaves at the
    destination: nothing, or a partial file;
  \<^item> \<open>createStream\<close> of \<open>rotating-file-stream\<close> for a size, an interval and the immutable
    flag: the error it throws, if it throws.
\<close>

datatype io_call = Access | Stat | Unlink

record platform =
  join :: "string \<Rightarrow> string \<Rightarrow> string"
  toISOString :: "int \<Rightarrow> string"
  toUTCString :: "int \<Rightarrow> string"
  toString :: "int \<Rightarrow> string"
  gzip :: "string \<Rightarrow> string"
  prettyFactory :: "string \<Rightarrow> unknown + string"
  rejects :: "io_call \<Rightarrow> string \<Rightarrow> err option"
  pipeline_rejects :: "string \<Rightarrow> string \<Rightarrow> (err \<times> string option) option"
  createStream :: "string \<Rightarrow> string \<Rightarrow> bool \<Rightarrow> err option"

text \<open>
  The first argument of \<open>generator\<close>, of type \<open>number | Date | null\<close>.  A number and a
  \<open>Date\<close> both carry milliseconds since the epoch, within the range of a valid \<open>Date\<close>.
  \<open>!time\<close> holds for \<open>null\<close> and for the number zero; a \<open>Date\<close> object is never falsy.
\<close>

datatype time_arg = Null | Number int | Date int

fun absent :: "time_arg \<Rightarrow> bool" where
  "absent Null = True"
| "absent (Number n) = (n = 0)"
| "absent (Date d) = False"

fun getTime :: "time_arg \<Rightarrow> int" where
  "getTime Null = 0"
| "getTime (Number n) = n"
| "getTime (Date d) = d"

definition is_alnum :: "char \<Rightarrow> bool" where
  "is_alnum c = (c \<in> set ''abcdefghijklmnopqrstuvwxyzABCDEFGHIJKLMNOPQRSTUVWXYZ0123456789'')"

text \<open>\<open>.replace(/-+/g, '-')\<close>: every run of hyphens becomes one hyphen.\<close>

fun collapse_hyphens :: "string \<Rightarrow> string" where
  "collapse_hyphens (a # b # cs) =
     (if a = CHR ''-'' \<and> b = CHR ''-'' then collapse_hyphens (b # cs) else a # collapse_hyphens (b # cs))"
| "collapse_hyphens cs = cs"

definition is_space :: "char \<Rightarrow> bool" where
  "is_space c = (c \<in> set [CHR '' '', CHR 0x09, CHR 0x0A, CHR 0x0B, CHR 0x0C, CHR 0x0D])"

definition trim :: "string \<Rightarrow> string" where
  "trim s = rev (dropWhile is_space (rev (dropWhile is_space s)))"

text \<open>\<open>.replace(/[^a-zA-Z0-9]/g, '-').replace(/-+/g, '-').trim()\<close>.\<close>

definition sanitize :: "string \<Rightarrow> string" where
  "sanitize s = trim (collapse_hyphens (map (\<lambda>c. if is_alnum c then c else CHR ''-'') s))"

text \<open>\<open>.toISOString().replace(/[-:T]/g, '').split('.')[0]\<close>.\<close>

definition iso_compact :: "string \<Rightarrow> string" where
  "iso_compact s = takeWhile (\<lambda>c. c \<noteq> CHR ''.'') (filter (\<lambda>c. c \<notin> set ''-:T'') s)"

text \<open>
  \<open>(ms / 1000).toFixed(0)\<close>: the integer nearest to the quotient, the larger one of two
  equally near, computed on the absolute value with the sign written in front.  The
  quotient is taken exactly: for a valid \<open>Date\<close> (at most 8.64e15 milliseconds from the epoch)
  the double quotient lies on the same side of every half as the exact one.
\<close>

definition toFixed0_div1000 :: "int \<Rightarrow> string" where
  "toFixed0_div1000 ms =
     (if ms < 0 then ''-'' @ decimal (nat ((- ms + 500) div 1000))
      else decimal (nat ((ms + 500) div 1000)))"

definition timestamp_of :: "platform \<Rightarrow> int \<Rightarrow> string \<Rightarrow> string" where
  "timestamp_of pf ms timestampFormat =
     (if timestampFormat = ''iso'' then iso_compact (toISOString pf ms)
      else if timestampFormat = ''unix'' then int_toString ms
      else if timestampFormat = ''utc'' then sanitize (toUTCString pf ms)
      else if timestampFormat = ''rfc2822'' then sanitize (toString pf ms)
      else if timestampFormat = ''epoch'' then toFixed0_div1000 ms
      else iso_compact (toISOString pf ms))"

text \<open>The file-name component that \<open>generator\<close> hands to \<open>join\<close> for a present instant.\<close>

definition rotated_name :: "platform \<Rightarrow> int \<Rightarrow> string \<Rightarrow> string \<Rightarrow> string" where
  "rotated_name pf ms filename timestampFormat =
     (let fullName = filename @ ''-'' @ timestamp_of pf ms timestampFormat @ ''.log''
      in if length fullName > 200 then take 200 fullName else fullName)"

definition generator :: "platform \<Rightarrow> time_arg \<Rightarrow> string \<Rightarrow> string \<Rightarrow> string \<Rightarrow> string" where
  "generator pf time dir filename timestampFormat =
     (if absent time then join pf dir (filename @ ''.log'')
      else join pf dir (rotated_name pf (getTime time) filename timestampFormat))"

section \<open>Error logger\<close>

text \<open>
  One entry per flush that reaches the backing sink: an append to the error file, or a
  line group on the console.
\<close>

datatype sink_write = AppendFile string string | ConsoleError string

text \<open>
  The closure state of \<open>createErrorLogger\<close>: the buffer, the parameters it was created
  with, whether the flush timer is set, and what the sink has received so far.
\<close>

record error_logger =
  buffer :: "string list"
  errorLogFile :: "string option"
  bufferSize :: nat
  flushIntervalMs :: int
  flushInterval :: bool
  written :: "sink_write list"

definition createErrorLogger :: "string option \<Rightarrow> nat \<Rightarrow> int \<Rightarrow> error_logger" where
  "createErrorLogger file size_limit interval_ms =
     \<lparr>buffer = [], errorLogFile = file, bufferSize = size_limit,
      flushIntervalMs = interval_ms, flushInterval = True, written = []\<rparr>"

definition sink_of :: "string option \<Rightarrow> string \<Rightarrow> sink_write" where
  "sink_of file logMessage =
     (case file of
        None \<Rightarrow> ConsoleError logMessage
      | Some f \<Rightarrow> if f = [] then ConsoleError logMessage else AppendFile f logMessage)"

definition flush :: "error_logger \<Rightarrow> error_logger" where
  "flush el =
     (if buffer el = [] then el
      else el\<lparr>buffer := [], written := written el @ [sink_of (errorLogFile el) (concat (buffer el))]\<rparr>)"

text \<open>The line that \<open>log\<close> builds; \<open>now\<close> is the instant \<open>new Date()\<close> reads.\<close>

definition logMessage :: "platform \<Rightarrow> int \<Rightarrow> string \<Rightarrow> unknown \<Rightarrow> string" where
  "logMessage pf now message error =
     toISOString pf now @ '' - '' @ message @ (if truthy error then '': '' @ String_of error else [])
       @ [CHR 0x0A]"

definition logger_log :: "platform \<Rightarrow> int \<Rightarrow> error_logger \<Rightarrow> string \<Rightarrow> unknown \<Rightarrow> error_logger" where
  "logger_log pf now el message error =
     (let el' = el\<lparr>buffer := buffer el @ [logMessage pf now message error]\<rparr>
      in if length (buffer el') \<ge> bufferSize el' then flush el' else el')"

text \<open>One firing of the timer that \<open>startFlushInterval\<close> sets.\<close>

definition interval_elapsed :: "error_logger \<Rightarrow> error_logger" where
  "interval_elapsed el = (if flushInterval el then flush el else el)"

definition destroy :: "error_logger \<Rightarrow> error_logger" where
  "destroy el = (flush el)\<lparr>flushInterval := False\<rparr>"

text \<open>
  Everything the logger has been given so far, in order: what the sink has received,
  followed by what is still in the buffer.
\<close>

fun payload :: "sink_write \<Rightarrow> string" where
  "payload (AppendFile f s) = s"
| "payload (ConsoleError s) = s"

definition transcript :: "error_logger \<Rightarrow> string" where
  "transcript el = concat (map payload (written el)) @ concat (buffer el)"

text \<open>A sequence of \<open>log\<close> calls, each with the instant at which it is made.\<close>

definition log_calls :: "platform \<Rightarrow> error_logger \<Rightarrow> (int \<times> string \<times> unknown) list \<Rightarrow> error_logger" where
  "log_calls pf el calls = foldl (\<lambda>l (now, message, error). logger_log pf now l message error) el calls"

section \<open>File system\<close>

text \<open>
  A path names a regular file, with its content and modification time in milliseconds,
  or a directory, or nothing.  The calls of \<open>node:fs/promises\<close> that the source makes are
  functions on this map; a rejected promise is \<open>Inl\<close>.
\<close>

datatype node = File (content: string) (mtimeMs: real) | Dir (mtimeMs: real)

type_synonym fs = "string \<rightharpoonup> node"

fun isDirectory :: "node \<Rightarrow> bool" where
  "isDirectory (Dir t) = True"
| "isDirectory (File c t) = False"

fun isFile :: "node \<Rightarrow> bool" where
  "isFile (File c t) = True"
| "isFile (Dir t) = False"

definition stat :: "fs \<Rightarrow> string \<Rightarrow> err + node" where
  "stat fs path = (case fs path of None \<Rightarrow> Inl (ENOENT path) | Some n \<Rightarrow> Inr n)"

definition access :: "fs \<Rightarrow> string \<Rightarrow> err + unit" where
  "access fs path = (case fs path of None \<Rightarrow> Inl (ENOENT path) | Some n \<Rightarrow> Inr ())"

text \<open>
  A call that the compression worker or the \<open>rotated\<close> listener awaits: the platform's
  rejection if it has one, otherwise what the path map decides.  The calls of the retention
  sweeper are decided by the path map alone.
\<close>

definition awaited :: "platform \<Rightarrow> io_call \<Rightarrow> string \<Rightarrow> err + 'a \<Rightarrow> err + 'a" where
  "awaited pf call path r = (case rejects pf call path of Some e \<Rightarrow> Inl e | None \<Rightarrow> r)"

text \<open>\<open>fileExists\<close>: \<open>true\<close> when \<open>access\<close> resolves, \<open>false\<close> when it rejects, whatever the reason.\<close>

definition fileExists :: "platform \<Rightarrow> fs \<Rightarrow> string \<Rightarrow> bool" where
  "fileExists pf fs path =
     (case awaited pf Access path (access fs path) of Inl e \<Rightarrow> False | Inr u \<Rightarrow> True)"

text \<open>
  \<open>unlink\<close> removes a regular file.  It rejects on a missing path and on a directory (the
  code is \<open>EPERM\<close>, or \<open>EISDIR\<close> on Linux; the source does not look at it).
\<close>

definition unlink :: "fs \<Rightarrow> string \<Rightarrow> err + fs" where
  "unlink fs path =
     (case fs path of
        None \<Rightarrow> Inl (ENOENT path)
      | Some (Dir t) \<Rightarrow> Inl (EPERM path)
      | Some (File c t) \<Rightarrow> Inr (fs(path := None)))"

text \<open>
  \<open>pipelineAsync(createReadStream(src), createGzip(opts), createWriteStream(dest))\<close>.  The
  platform may reject it, leaving nothing or a partial file at \<open>dest\<close>.  Otherwise the write
  stream cannot open a directory; it creates or truncates any other \<open>dest\<close>, also when the
  read stream then fails to open \<open>src\<close>.
\<close>

definition pipelineAsync :: "platform \<Rightarrow> int \<Rightarrow> fs \<Rightarrow> string \<Rightarrow> string \<Rightarrow> (err + unit) \<times> fs" where
  "pipelineAsync pf now fs src dest =
     (case pipeline_rejects pf src dest of
        Some (e, left) \<Rightarrow>
          (Inl e, (case left of None \<Rightarrow> fs | Some part \<Rightarrow> fs(dest \<mapsto> File part (real_of_int now))))
      | None \<Rightarrow>
        (case fs dest of
           Some (Dir t) \<Rightarrow> (Inl (EISDIR dest), fs)
         | _ \<Rightarrow>
           (case fs src of
              Some (File c t) \<Rightarrow> (Inr (), fs(dest \<mapsto> File (gzip pf c) (real_of_int now)))
            | Some (Dir t) \<Rightarrow> (Inl (EISDIR src), fs(dest \<mapsto> File [] (real_of_int now)))
            | None \<Rightarrow> (Inl (ENOENT src), fs(dest \<mapsto> File [] (real_of_int now))))))"

section \<open>Compression worker\<close>

text \<open>The body of the \<open>try\<close> block of \<open>compressFile\<close>; \<open>Inl\<close> is a value thrown out of it.\<close>

definition compressFile_try ::
  "platform \<Rightarrow> int \<Rightarrow> fs \<Rightarrow> error_logger \<Rightarrow> string \<Rightarrow> string \<Rightarrow> (err + unit) \<times> fs \<times> error_logger" where
  "compressFile_try pf now fs el src dest =
     (if \<not> fileExists pf fs src
      then (Inr (), fs, logger_log pf now el (''Skipping compression, file does not exist: '' @ src) Undefined)
      else
        (case awaited pf Stat src (stat fs src) of
           Inl e \<Rightarrow> (Inl e, fs, el)
         | Inr stats \<Rightarrow>
             if isDirectory stats
             then (Inr (), fs, logger_log pf now el (''Skipping compression, source is a directory: '' @ src) Undefined)
             else
               (case pipelineAsync pf now fs src dest of
                  (Inl e, fs1) \<Rightarrow> (Inl e, fs1, el)
                | (Inr u, fs1) \<Rightarrow>
                    if \<not> fileExists pf fs1 dest
                    then (Inl (Error (''Compression failed: Destination file '' @ dest @ '' not found'')), fs1, el)
                    else
                      (case awaited pf Unlink src (unlink fs1 src) of
                         Inl e \<Rightarrow> (Inl e, fs1, el)
                       | Inr fs2 \<Rightarrow> (Inr (), fs2, el)))))"

text \<open>\<open>compressFile\<close>: the \<open>catch\<close> clause logs the error and throws it again.\<close>

definition compressFile ::
  "platform \<Rightarrow> int \<Rightarrow> fs \<Rightarrow> error_logger \<Rightarrow> string \<Rightarrow> string \<Rightarrow> (err + unit) \<times> fs \<times> error_logger" where
  "compressFile pf now fs el src dest =
     (case compressFile_try pf now fs el src dest of
        (Inl e, fs', el') \<Rightarrow> (Inl e, fs', logger_log pf now el' (''Error compressing file '' @ src) (Thrown e))
      | (Inr u, fs', el') \<Rightarrow> (Inr u, fs', el'))"

section \<open>Retention sweeper\<close>

text \<open>
  The world a sweep runs in: the file system, and what \<open>readdir\<close> answers for a
  directory (the names of its entries, or a rejection).
\<close>

record world =
  nodes :: fs
  readdir :: "string \<Rightarrow> err + string list"

text \<open>
  The callback that \<open>cleanupOldFiles\<close> maps over the selected names.  It returns whether its
  promise is rejected, the file system and the logger after it.
\<close>

definition sweep_file ::
  "platform \<Rightarrow> int \<Rightarrow> string \<Rightarrow> real \<Rightarrow> string \<Rightarrow> fs \<Rightarrow> error_logger \<Rightarrow> (err + unit) \<times> fs \<times> error_logger" where
  "sweep_file pf now dir cutoff file fs el =
     (let filePath = join pf dir file in
      case stat fs filePath of
        Inl e \<Rightarrow> (Inl e, fs, el)
      | Inr stats \<Rightarrow>
          if mtimeMs stats < cutoff then
            (case unlink fs filePath of
               Inl e \<Rightarrow> (Inl e, fs, el)
             | Inr fs' \<Rightarrow> (Inr (), fs', logger_log pf now el (''Deleted old log file: '' @ filePath) Undefined))
          else (Inr (), fs, el))"

text \<open>
  \<open>Promise.all\<close> over the callbacks.  Every callback is started before any is awaited, so
  each one runs to its end whether or not another is rejected; the combined promise is
  rejected with the first rejection, if there is one.  The callbacks take effect in the
  order of the listing.
\<close>

fun promise_all_sweep ::
  "platform \<Rightarrow> int \<Rightarrow> string \<Rightarrow> real \<Rightarrow> string list \<Rightarrow> fs \<Rightarrow> error_logger \<Rightarrow> (err + unit) \<times> fs \<times> error_logger" where
  "promise_all_sweep pf now dir cutoff [] fs el = (Inr (), fs, el)"
| "promise_all_sweep pf now dir cutoff (file # files) fs el =
     (case sweep_file pf now dir cutoff file fs el of
        (r, fs1, el1) \<Rightarrow>
          (case promise_all_sweep pf now dir cutoff files fs1 el1 of
             (rs, fs2, el2) \<Rightarrow> ((case r of Inl e \<Rightarrow> Inl e | Inr u \<Rightarrow> rs), fs2, el2)))"

text \<open>The predicate of the \<open>filter\<close> call.\<close>

definition selected :: "string \<Rightarrow> string \<Rightarrow> bool" where
  "selected filename file =
     (startsWith file filename \<and> (endsWith file ''.log'' \<or> endsWith file ''.log.gz''))"

definition cleanupOldFiles_try ::
  "platform \<Rightarrow> int \<Rightarrow> world \<Rightarrow> error_logger \<Rightarrow> string \<Rightarrow> string \<Rightarrow> real \<Rightarrow> (err + unit) \<times> world \<times> error_logger" where
  "cleanupOldFiles_try pf now w el dir filename retentionDays =
     (case readdir w dir of
        Inl e \<Rightarrow> (Inl e, w, el)
      | Inr files \<Rightarrow>
          (let cutoff = real_of_int now - retentionDays * 24 * 60 * 60 * 1000 in
           case promise_all_sweep pf now dir cutoff (filter (selected filename) files) (nodes w) el of
             (r, fs', el') \<Rightarrow> (r, w\<lparr>nodes := fs'\<rparr>, el')))"

text \<open>\<open>cleanupOldFiles\<close>: the \<open>catch\<close> clause logs the error and returns.\<close>

definition cleanupOldFiles ::
  "platform \<Rightarrow> int \<Rightarrow> world \<Rightarrow> error_logger \<Rightarrow> string \<Rightarrow> string \<Rightarrow> real \<Rightarrow> (err + unit) \<times> world \<times> error_logger" where
  "cleanupOldFiles pf now w el dir filename retentionDays =
     (case cleanupOldFiles_try pf now w el dir filename retentionDays of
        (Inl e, w', el') \<Rightarrow> (Inr (), w', logger_log pf now el' (''Error during log file cleanup in '' @ dir) (Thrown e))
      | (Inr u, w', el') \<Rightarrow> (Inr u, w', el'))"

section \<open>Transport pipeline\<close>

text \<open>
  \<open>Partial<PinoTransportOptions>\<close>: every option may be missing.  \<open>compressionOptions\<close> is
  part of the platform's compressor.
\<close>

record options =
  opt_dir :: "string option"
  opt_filename :: "string option"
  opt_enabled :: "bool option"
  opt_size :: "string option"
  opt_interval :: "string option"
  opt_compress :: "bool option"
  opt_immutable :: "bool option"
  opt_retentionDays :: "real option"
  opt_errorLogFile :: "string option"
  opt_timestampFormat :: "string option"
  opt_skipPretty :: "bool option"
  opt_errorFlushIntervalMs :: "int option"

text \<open>
  What the closure of an enabled transport holds: the options after defaults, the error
  logger, whether the \<open>rotated\<close> listener is registered, the ledger \<open>compressedFiles\<close>, the
  pending \<open>setTimeout\<close> calls (the instant each is due, and the path it deletes from the
  ledger), and the period of the retention timer if it was started.
\<close>

record active =
  dir :: string
  filename :: string
  retentionDays :: real
  timestampFormat :: string
  skipPretty :: bool
  errorLogger :: error_logger
  rotatedListener :: bool
  compressedFiles :: "string \<rightharpoonup> int"
  timeouts :: "(int \<times> string) list"
  cleanupInterval :: "int option"

datatype transport = PassThrough | Active active

definition MAX_COMPRESSION_AGE :: int where
  "MAX_COMPRESSION_AGE = 24 * 60 * 60 * 1000"

definition or_default :: "'a \<Rightarrow> 'a option \<Rightarrow> 'a" where
  "or_default d v = (case v of None \<Rightarrow> d | Some x \<Rightarrow> x)"

text \<open>
  \<open>pinoTransportRotatingFile\<close>.  \<open>createStream\<close> returns or throws as the platform says;
  \<open>build\<close> only wraps the functions it is given.  \<open>Inl\<close> is a rejection of the promise the
  function returns.
\<close>

definition pinoTransportRotatingFile ::
  "platform \<Rightarrow> int \<Rightarrow> world \<Rightarrow> options \<Rightarrow> (err + transport) \<times> world" where
  "pinoTransportRotatingFile pf now w options =
     (if \<not> or_default True (opt_enabled options) then (Inr PassThrough, w)
      else if or_default [] (opt_dir options) = [] then (Inl (Error ''Missing required option: dir''), w)
      else
        (case validateSize (or_default ''100K'' (opt_size options)) of
           Inl e \<Rightarrow> (Inl e, w)
         | Inr u1 \<Rightarrow>
        (case validateInterval (or_default ''1d'' (opt_interval options)) of
           Inl e \<Rightarrow> (Inl e, w)
         | Inr u2 \<Rightarrow>
        (case validateTimestampFormat (or_default ''iso'' (opt_timestampFormat options)) of
           Inl e \<Rightarrow> (Inl e, w)
         | Inr u3 \<Rightarrow>
          (let tr = \<lparr>dir = or_default [] (opt_dir options),
                     filename = or_default ''app'' (opt_filename options),
                     retentionDays = or_default 30 (opt_retentionDays options),
                     timestampFormat = or_default ''iso'' (opt_timestampFormat options),
                     skipPretty = or_default False (opt_skipPretty options),
                     errorLogger = createErrorLogger (opt_errorLogFile options) 100
                        (or_default (60 * 1000) (opt_errorFlushIntervalMs options)),
                     rotatedListener = or_default True (opt_compress options),
                     compressedFiles = Map.empty,
                     timeouts = [],
                     cleanupInterval = None\<rparr>
           in
           case createStream pf (or_default ''100K'' (opt_size options)) (or_default ''1d'' (opt_interval options))
                  (or_default True (opt_immutable options)) of
             Some e \<Rightarrow> (Inl e, w)
           | None \<Rightarrow>
              if retentionDays tr > 0 then
                (case cleanupOldFiles pf now w (errorLogger tr) (dir tr) (filename tr) (retentionDays tr) of
                   (Inl e, w', el') \<Rightarrow> (Inl e, w')
                 | (Inr u, w', el') \<Rightarrow>
                     (Inr (Active (tr\<lparr>errorLogger := el', cleanupInterval := Some (24 * 60 * 60 * 1000)\<rparr>)), w'))
              else (Inr (Active tr), w))))))"

text \<open>
  The \<open>rotated\<close> listener is an \<open>async\<close> function.  A call runs the test of the ledger at
  once and is then suspended at \<open>await stat(rotatedFile)\<close> and, for a regular file, again at
  \<open>await compressFile(...)\<close>; other events run in between.  A \<open>task\<close> is a suspended call.
\<close>

datatype task = AwaitStat string | AwaitCompress string

text \<open>
  The synchronous start of a call of the listener, if one is registered: it returns at
  once for a path that is in the ledger.
\<close>

definition on_rotated :: "active \<Rightarrow> string \<Rightarrow> task option" where
  "on_rotated tr rotatedFile =
     (if \<not> rotatedListener tr then None
      else if compressedFiles tr rotatedFile \<noteq> None then None
      else Some (AwaitStat rotatedFile))"

text \<open>
  A suspended call is resumed, inside the \<open>try\<close> block: the result is the next suspension,
  if there is one, or a thrown value.  The file-system calls of \<open>compressFile\<close> take effect
  at the moment the listener is resumed from it.
\<close>

fun resume_try :: "platform \<Rightarrow> int \<Rightarrow> active \<Rightarrow> fs \<Rightarrow> task \<Rightarrow> (err + task option) \<times> active \<times> fs" where
  "resume_try pf now tr fs (AwaitStat rotatedFile) =
     (case awaited pf Stat rotatedFile (stat fs rotatedFile) of
        Inl e \<Rightarrow> (Inl e, tr, fs)
      | Inr stats \<Rightarrow>
          if isFile stats then (Inr (Some (AwaitCompress rotatedFile)), tr, fs)
          else
            (Inr None,
             tr\<lparr>errorLogger := logger_log pf now (errorLogger tr)
                  (''Skipping compression, rotated file is a directory: '' @ rotatedFile) Undefined\<rparr>,
             fs))"
| "resume_try pf now tr fs (AwaitCompress rotatedFile) =
     (let compressedFile = rotatedFile @ ''.gz'' in
      case compressFile pf now fs (errorLogger tr) rotatedFile compressedFile of
        (Inl e, fs', el') \<Rightarrow> (Inl e, tr\<lparr>errorLogger := el'\<rparr>, fs')
      | (Inr u, fs', el') \<Rightarrow>
          (Inr None,
           tr\<lparr>errorLogger := el',
              compressedFiles := (compressedFiles tr)(rotatedFile \<mapsto> now),
              timeouts := timeouts tr @ [(now + MAX_COMPRESSION_AGE, rotatedFile)]\<rparr>,
           fs'))"

text \<open>The same with the \<open>catch\<close> clause of the listener, which logs the error.\<close>

definition resume :: "platform \<Rightarrow> int \<Rightarrow> active \<Rightarrow> fs \<Rightarrow> task \<Rightarrow> (err + task option) \<times> active \<times> fs" where
  "resume pf now tr fs t =
     (case resume_try pf now tr fs t of
        (Inl e, tr', fs') \<Rightarrow>
          (Inr None,
           tr'\<lparr>errorLogger := logger_log pf now (errorLogger tr')
                 (''Error compressing rotated file '' @ (case t of AwaitStat p \<Rightarrow> p | AwaitCompress p \<Rightarrow> p))
                 (Thrown e)\<rparr>,
           fs')
      | (Inr next, tr', fs') \<Rightarrow> (Inr next, tr', fs'))"

text \<open>
  The timers set by \<open>setTimeout\<close> that are due at the instant \<open>now\<close> fire: each deletes its
  path from the ledger.
\<close>

definition run_timeouts :: "int \<Rightarrow> active \<Rightarrow> active" where
  "run_timeouts now tr =
     tr\<lparr>compressedFiles :=
          foldl (\<lambda>m (due, path). m(path := None)) (compressedFiles tr)
            (filter (\<lambda>(due, path). due \<le> now) (timeouts tr)),
        timeouts := filter (\<lambda>(due, path). \<not> due \<le> now) (timeouts tr)\<rparr>"





text \<open>
  The running transport: its closure, the file system, and the suspended calls of the
  listener.  An event happens at an instant: the rotation engine emits \<open>rotated\<close> for a path,
  the event loop resumes the suspended call at a position, or the timers that are due fire.
\<close>

record system =
  closure :: active
  disk :: fs
  pending :: "task list"

datatype event = Rotated string | Resume nat | Timers

fun step :: "platform \<Rightarrow> system \<Rightarrow> int \<times> event \<Rightarrow> system" where
  "step pf s (now, Rotated rotatedFile) =
     (case on_rotated (closure s) rotatedFile of
        None \<Rightarrow> s
      | Some t \<Rightarrow> s\<lparr>pending := pending s @ [t]\<rparr>)"
| "step pf s (now, Resume i) =
     (if i < length (pending s) then
        (case resume pf now (closure s) (disk s) (pending s ! i) of
           (r, tr', fs') \<Rightarrow>
             s\<lparr>closure := tr', disk := fs',
               pending := take i (pending s) @ drop (Suc i) (pending s)
                  @ (case r of Inr (Some t) \<Rightarrow> [t] | _ \<Rightarrow> [])\<rparr>)
      else s)"
| "step pf s (now, Timers) = s\<lparr>closure := run_timeouts now (closure s)\<rparr>"


text \<open>
  A platform for the concrete evaluations below: \<open>join\<close> on a normalised directory and a
  plain name, the three renderings of the instant 1742646896789, a compressor that marks
  its input, a formatter that throws on the empty line, no rejection and a \<open>createStream\<close>
  that returns.  \<open>other_zone\<close> is the same platform in a process whose time zone is five
  hours behind; \<open>full_disk\<close> is the same platform with a disk on which every pipeline fails,
  leaving an empty destination.
\<close>

definition example_platform :: platform where
  "example_platform =
     \<lparr>join = (\<lambda>d f. d @ ''/'' @ f),
      toISOString = (\<lambda>ms. ''2025-03-22T12:34:56.789Z''),
      toUTCString = (\<lambda>ms. ''Sat, 22 Mar 2025 12:34:56 GMT''),
      toString = (\<lambda>ms. ''Sat Mar 22 2025 12:34:56 GMT+0000 (Coordinated Universal Time)''),
      gzip = (\<lambda>c. ''gz:'' @ c),
      prettyFactory = (\<lambda>l. if l = [] then Inl (Str ''empty'') else Inr (''INFO '' @ l)),
      rejects = (\<lambda>call path. None),
      pipeline_rejects = (\<lambda>src dest. None),
      createStream = (\<lambda>size_str interval immutable. None)\<rparr>"

definition other_zone :: platform where
  "other_zone =
     example_platform\<lparr>toString :=
       (\<lambda>ms. ''Sat Mar 22 2025 07:34:56 GMT-0500 (Central Daylight Time)'')\<rparr>"

definition full_disk :: platform where
  "full_disk =
     example_platform\<lparr>pipeline_rejects :=
       (\<lambda>src dest. Some (Error ''ENOSPC: no space left on device, write'', Some []))\<rparr>"

text \<open>
  A file system, a world, options and a closure state for the concrete evaluations below.  In
  \<open>example_fs\<close> the path \<open>logs/app-1.log.gz\<close> is a directory; in \<open>example_world\<close> the entry
  \<open>app-old.log\<close> of \<open>logs\<close> is a directory.
\<close>

definition example_fs :: fs where
  "example_fs = [''logs/app-1.log'' \<mapsto> File ''hello'' 1000, ''logs/app-1.log.gz'' \<mapsto> Dir 1000,
                 ''logs/app-2.log'' \<mapsto> File ''world'' 2000]"

definition example_world :: world where
  "example_world =
     \<lparr>nodes = [''logs/app-old.log'' \<mapsto> Dir 1000, ''logs/app-1.log'' \<mapsto> File ''hello'' 1000,
               ''logs/app-2.log'' \<mapsto> File ''world'' 900000000, ''logs/other.log'' \<mapsto> File ''x'' 1000],
      readdir = (\<lambda>d. if d = ''logs'' then Inr [''app-old.log'', ''app-1.log'', ''app-2.log'', ''other.log''] else Inl (ENOENT d))\<rparr>"


definition broken_options :: options where
  "broken_options =
     \<lparr>opt_dir = None, opt_filename = None, opt_enabled = Some False, opt_size = Some ''ten'',
      opt_interval = Some ''0d'', opt_compress = None, opt_immutable = None,
      opt_retentionDays = None, opt_errorLogFile = None, opt_timestampFormat = Some ''ISO'',
      opt_skipPretty = None, opt_errorFlushIntervalMs = None\<rparr>"




section \<open>Properties of the config validator\<close>

lemma exec_num_unit_Some:
  "exec_num_unit cls s = Some (ds, u) \<longleftrightarrow> s = ds @ [u] \<and> ds \<noteq> [] \<and> list_all is_digit ds \<and> u \<in> set cls"
  by (auto simp: exec_num_unit_def)

lemma exec_num_unit_zero:
  assumes "\<not> (\<exists>ds u. s = ds @ [u] \<and> ds \<noteq> [] \<and> list_all is_digit ds \<and> 0 < parseInt ds \<and> u \<in> set cls)"
    and "exec_num_unit cls s = Some (ds, u)"
  shows "parseInt ds = 0"
proof -
  from assms(2) have m: "s = ds @ [u] \<and> ds \<noteq> [] \<and> list_all is_digit ds \<and> u \<in> set cls"
    by (simp add: exec_num_unit_Some)
  show ?thesis
  proof (rule ccontr)
    assume "parseInt ds \<noteq> 0"
    then have "0 < parseInt ds" by simp
    with m have "s = ds @ [u] \<and> ds \<noteq> [] \<and> list_all is_digit ds \<and> 0 < parseInt ds \<and> u \<in> set cls"
      by simp
    then have "\<exists>ds u. s = ds @ [u] \<and> ds \<noteq> [] \<and> list_all is_digit ds \<and> 0 < parseInt ds \<and> u \<in> set cls"
      by (intro exI)
    with assms(1) show False by (rule notE)
  qed
qed

lemma no_unit_size: "u \<in> set ''BKMG'' \<Longrightarrow> \<not> no_unit sizeUnits u"
  by (auto simp: no_unit_def sizeUnits_def)

lemma no_unit_time: "u \<in> set ''smhdM'' \<Longrightarrow> \<not> no_unit timeUnits u"
  by (auto simp: no_unit_def timeUnits_def)

lemma validateSize_ok:
  "ds \<noteq> [] \<Longrightarrow> list_all is_digit ds \<Longrightarrow> 0 < parseInt ds \<Longrightarrow> u \<in> set ''BKMG'' \<Longrightarrow>
   validateSize (ds @ [u]) = Inr ()"
  using no_unit_size [of u] by (simp add: validateSize_def exec_num_unit_def)

lemma validateSize_bad:
  assumes "\<not> (\<exists>ds u. s = ds @ [u] \<and> ds \<noteq> [] \<and> list_all is_digit ds \<and> 0 < parseInt ds \<and> u \<in> set ''BKMG'')"
  shows "validateSize s = Inl (Error (''Invalid size format: '' @ s @ ''. Expected format: <number><B|K|M|G>''))
    \<or> validateSize s = Inl (Error (''Size must be positive: '' @ s))"
proof (cases "exec_num_unit ''BKMG'' s")
  case None
  then show ?thesis by (simp add: validateSize_def)
next
  case (Some a)
  obtain ds u where a: "a = (ds, u)" by (cases a) auto
  from assms Some a have "parseInt ds = 0" by (simp add: exec_num_unit_zero [of s "''BKMG''" ds u])
  with Some a show ?thesis by (simp add: validateSize_def)
qed

lemma validateInterval_ok:
  "ds \<noteq> [] \<Longrightarrow> list_all is_digit ds \<Longrightarrow> 0 < parseInt ds \<Longrightarrow> u \<in> set ''smhdM'' \<Longrightarrow>
   validateInterval (ds @ [u]) = Inr ()"
  using no_unit_time [of u] by (simp add: validateInterval_def exec_num_unit_def)

lemma validateInterval_bad:
  assumes "\<not> (\<exists>ds u. s = ds @ [u] \<and> ds \<noteq> [] \<and> list_all is_digit ds \<and> 0 < parseInt ds \<and> u \<in> set ''smhdM'')"
  shows "validateInterval s = Inl (Error (''Invalid interval format: '' @ s @ ''. Expected format: <number><s|m|h|d|M>''))
    \<or> validateInterval s = Inl (Error (''Interval must be positive: '' @ s))"
proof (cases "exec_num_unit ''smhdM'' s")
  case None
  then show ?thesis by (simp add: validateInterval_def)
next
  case (Some a)
  obtain ds u where a: "a = (ds, u)" by (cases a) auto
  from assms Some a have "parseInt ds = 0" by (simp add: exec_num_unit_zero [of s "''smhdM''" ds u])
  with Some a show ?thesis by (simp add: validateInterval_def)
qed

lemma validateTimestampFormat_cases:
  "validateTimestampFormat f =
     (if f \<in> {''iso'', ''unix'', ''utc'', ''rfc2822'', ''epoch''} then Inr ()
      else Inl (Error (''Invalid timestampFormat: '' @ f @ ''. Expected one of: iso, unix, utc, rfc2822, epoch'')))"
  by (simp add: validateTimestampFormat_def validFormats_def)

text \<open>
  Claim C2.  A size string made of one or more decimal digits with a positive value followed by one of
  \<open>B\<close>, \<open>K\<close>, \<open>M\<close>, \<open>G\<close> passes \<open>validateSize\<close>; every other string is rejected with an
  error whose message names the size.  The same holds for \<open>validateInterval\<close> over \<open>s\<close>, \<open>m\<close>,
  \<open>h\<close>, \<open>d\<close>, \<open>M\<close>, and \<open>validateTimestampFormat\<close> accepts the five format names and rejects
  every other string with an error that names \<open>timestampFormat\<close>.
\<close>

theorem validators_accept_and_reject:
  "(ds \<noteq> [] \<and> list_all is_digit ds \<and> 0 < parseInt ds \<and> u \<in> set ''BKMG''
      \<longrightarrow> validateSize (ds @ [u]) = Inr ())
   \<and> (\<not> (\<exists>ds u. s = ds @ [u] \<and> ds \<noteq> [] \<and> list_all is_digit ds \<and> 0 < parseInt ds \<and> u \<in> set ''BKMG'')
      \<longrightarrow> validateSize s = Inl (Error (''Invalid size format: '' @ s @ ''. Expected format: <number><B|K|M|G>''))
        \<or> validateSize s = Inl (Error (''Size must be positive: '' @ s)))
   \<and> (ds \<noteq> [] \<and> list_all is_digit ds \<and> 0 < parseInt ds \<and> v \<in> set ''smhdM''
      \<longrightarrow> validateInterval (ds @ [v]) = Inr ())
   \<and> (\<not> (\<exists>ds u. s = ds @ [u] \<and> ds \<noteq> [] \<and> list_all is_digit ds \<and> 0 < parseInt ds \<and> u \<in> set ''smhdM'')
      \<longrightarrow> validateInterval s = Inl (Error (''Invalid interval format: '' @ s @ ''. Expected format: <number><s|m|h|d|M>''))
        \<or> validateInterval s = Inl (Error (''Interval must be positive: '' @ s)))
   \<and> (f \<in> {''iso'', ''unix'', ''utc'', ''rfc2822'', ''epoch''} \<longrightarrow> validateTimestampFormat f = Inr ())
   \<and> (f \<notin> {''iso'', ''unix'', ''utc'', ''rfc2822'', ''epoch''} \<longrightarrow>
        validateTimestampFormat f
          = Inl (Error (''Invalid timestampFormat: '' @ f @ ''. Expected one of: iso, unix, utc, rfc2822, epoch'')))"
proof (intro conjI impI)
  assume "ds \<noteq> [] \<and> list_all is_digit ds \<and> 0 < parseInt ds \<and> u \<in> set ''BKMG''"
  then show "validateSize (ds @ [u]) = Inr ()" by (simp add: validateSize_ok)
next
  assume "\<not> (\<exists>ds u. s = ds @ [u] \<and> ds \<noteq> [] \<and> list_all is_digit ds \<and> 0 < parseInt ds \<and> u \<in> set ''BKMG'')"
  then show "validateSize s = Inl (Error (''Invalid size format: '' @ s @ ''. Expected format: <number><B|K|M|G>''))
        \<or> validateSize s = Inl (Error (''Size must be positive: '' @ s))"
    by (rule validateSize_bad)
next
  assume "ds \<noteq> [] \<and> list_all is_digit ds \<and> 0 < parseInt ds \<and> v \<in> set ''smhdM''"
  then show "validateInterval (ds @ [v]) = Inr ()" by (simp add: validateInterval_ok)
next
  assume "\<not> (\<exists>ds u. s = ds @ [u] \<and> ds \<noteq> [] \<and> list_all is_digit ds \<and> 0 < parseInt ds \<and> u \<in> set ''smhdM'')"
  then show "validateInterval s = Inl (Error (''Invalid interval format: '' @ s @ ''. Expected format: <number><s|m|h|d|M>''))
        \<or> validateInterval s = Inl (Error (''Interval must be positive: '' @ s))"
    by (rule validateInterval_bad)
next
  assume "f \<in> {''iso'', ''unix'', ''utc'', ''rfc2822'', ''epoch''}"
  then show "validateTimestampFormat f = Inr ()" by (simp add: validateTimestampFormat_cases)
next
  assume "f \<notin> {''iso'', ''unix'', ''utc'', ''rfc2822'', ''epoch''}"
  then show "validateTimestampFormat f
          = Inl (Error (''Invalid timestampFormat: '' @ f @ ''. Expected one of: iso, unix, utc, rfc2822, epoch''))"
    by (simp add: validateTimestampFormat_cases)
qed

lemma not_wf_0K: "\<not> (\<exists>ds u. ''0K'' = ds @ [u] \<and> ds \<noteq> [] \<and> list_all is_digit ds \<and> 0 < parseInt ds \<and> u \<in> set cls)"
proof
  assume "\<exists>ds u. ''0K'' = ds @ [u] \<and> ds \<noteq> [] \<and> list_all is_digit ds \<and> 0 < parseInt ds \<and> u \<in> set cls"
  then obtain ds u where h: "''0K'' = ds @ [u]" "0 < parseInt ds" by blast
  from h(1) have "butlast ''0K'' = ds" by (metis butlast_snoc)
  then have "ds = ''0''" by simp
  with h(2) show False by (simp add: parseInt_def digit_val_def)
qed

theorem validators_accept_and_reject_witness:
  "validateSize ''100K'' = Inr ()
   \<and> validateSize ''0K'' = Inl (Error ''Size must be positive: 0K'')
   \<and> validateInterval ''1d'' = Inr ()
   \<and> validateInterval ''0K'' = Inl (Error ''Invalid interval format: 0K. Expected format: <number><s|m|h|d|M>'')
   \<and> validateTimestampFormat ''epoch'' = Inr ()
   \<and> validateTimestampFormat ''ISO'' = Inl (Error ''Invalid timestampFormat: ISO. Expected one of: iso, unix, utc, rfc2822, epoch'')"
proof -
  note t1 = validators_accept_and_reject [of "''100''" "CHR ''K''" "''0K''" "CHR ''d''" "''epoch''"]
  note t2 = validators_accept_and_reject [of "''1''" "CHR ''K''" "''0K''" "CHR ''d''" "''ISO''"]
  have digits: "''100'' \<noteq> [] \<and> list_all is_digit ''100'' \<and> 0 < parseInt ''100'' \<and> CHR ''K'' \<in> set ''BKMG''"
    "''1'' \<noteq> [] \<and> list_all is_digit ''1'' \<and> 0 < parseInt ''1'' \<and> CHR ''d'' \<in> set ''smhdM''"
    by (simp_all add: is_digit_def parseInt_def digit_val_def)
  have a: "validateSize (''100'' @ [CHR ''K'']) = Inr ()"
    using t1 [THEN conjunct1] digits(1) by (rule mp)
  have b: "validateSize ''0K'' = Inl (Error (''Invalid size format: '' @ ''0K'' @ ''. Expected format: <number><B|K|M|G>''))
        \<or> validateSize ''0K'' = Inl (Error (''Size must be positive: '' @ ''0K''))"
    using t1 [THEN conjunct2, THEN conjunct1] not_wf_0K [of "''BKMG''"] by (rule mp)
  have c: "validateInterval (''1'' @ [CHR ''d'']) = Inr ()"
    using t2 [THEN conjunct2, THEN conjunct2, THEN conjunct1] digits(2) by (rule mp)
  have d: "validateInterval ''0K'' = Inl (Error (''Invalid interval format: '' @ ''0K'' @ ''. Expected format: <number><s|m|h|d|M>''))
        \<or> validateInterval ''0K'' = Inl (Error (''Interval must be positive: '' @ ''0K''))"
    using t1 [THEN conjunct2, THEN conjunct2, THEN conjunct2, THEN conjunct1] not_wf_0K [of "''smhdM''"] by (rule mp)
  have e: "validateTimestampFormat ''epoch'' = Inr ()"
    using t1 [THEN conjunct2, THEN conjunct2, THEN conjunct2, THEN conjunct2, THEN conjunct1] by simp
  have f: "validateTimestampFormat ''ISO'' = Inl (Error (''Invalid timestampFormat: '' @ ''ISO'' @ ''. Expected one of: iso, unix, utc, rfc2822, epoch''))"
    using t2 [THEN conjunct2, THEN conjunct2, THEN conjunct2, THEN conjunct2, THEN conjunct2] by simp
  have b': "validateSize ''0K'' \<noteq> Inl (Error (''Invalid size format: '' @ ''0K'' @ ''. Expected format: <number><B|K|M|G>''))"
    by (simp add: validateSize_def exec_num_unit_def is_digit_def parseInt_def digit_val_def)
  have d': "validateInterval ''0K'' \<noteq> Inl (Error (''Interval must be positive: '' @ ''0K''))"
    by (simp add: validateInterval_def exec_num_unit_def is_digit_def parseInt_def digit_val_def)
  have b'': "validateSize ''0K'' = Inl (Error (''Size must be positive: '' @ ''0K''))"
    using b
  proof
    assume "validateSize ''0K'' = Inl (Error (''Invalid size format: '' @ ''0K'' @ ''. Expected format: <number><B|K|M|G>''))"
    with b' show ?thesis by contradiction
  next
    assume "validateSize ''0K'' = Inl (Error (''Size must be positive: '' @ ''0K''))"
    then show ?thesis .
  qed
  have d'': "validateInterval ''0K'' = Inl (Error (''Invalid interval format: '' @ ''0K'' @ ''. Expected format: <number><s|m|h|d|M>''))"
    using d
  proof
    assume "validateInterval ''0K'' = Inl (Error (''Interval must be positive: '' @ ''0K''))"
    with d' show ?thesis by contradiction
  next
    assume "validateInterval ''0K'' = Inl (Error (''Invalid interval format: '' @ ''0K'' @ ''. Expected format: <number><s|m|h|d|M>''))"
    then show ?thesis .
  qed
  from a b'' c d'' e f show ?thesis by simp
qed

section \<open>Properties of the filename generator\<close>

lemma rotated_name_take:
  "rotated_name pf ms base fmt = take 200 (base @ ''-'' @ timestamp_of pf ms fmt @ ''.log'')"
  unfolding rotated_name_def Let_def by (simp del: take_append)

lemma rotated_name_bound: "length (rotated_name pf ms base fmt) \<le> 200"
  unfolding rotated_name_take by (simp del: take_append)

lemma timestamp_of_cong:
  assumes "toISOString pf' = toISOString pf" and "toUTCString pf' = toUTCString pf"
    and "fmt = ''rfc2822'' \<longrightarrow> toString pf' = toString pf"
  shows "timestamp_of pf' ms fmt = timestamp_of pf ms fmt"
  using assms by (simp add: timestamp_of_def)

text \<open>
  Claim C7.  As amended.  For an instant that is present (a \<open>Date\<close>, or a number other than zero:
  \<open>!time\<close> is false), the file-name component that \<open>generator\<close> joins to the directory is the
  first 200 characters of \<open>filename-timestamp.log\<close>, so it never has more than 200 characters.
  For an instant that is absent to \<open>!time\<close> (\<open>null\<close>, and also the number zero) the result is
  the live-file path, whose name is not truncated.  Two calls with the same arguments give
  the same path when the platform functions that the format reads are the same at both
  calls; for \<open>rfc2822\<close> that includes the local-time rendering, hence the time zone of the
  process.
\<close>

theorem generator_name_bounded:
  "(\<not> absent t \<longrightarrow>
      generator pf t d base fmt = join pf d (rotated_name pf (getTime t) base fmt)
      \<and> rotated_name pf (getTime t) base fmt
          = take 200 (base @ ''-'' @ timestamp_of pf (getTime t) fmt @ ''.log'')
      \<and> length (rotated_name pf (getTime t) base fmt) \<le> 200)
   \<and> (absent t \<longrightarrow> generator pf t d base fmt = join pf d (base @ ''.log''))
   \<and> (join pf' = join pf \<and> toISOString pf' = toISOString pf \<and> toUTCString pf' = toUTCString pf
        \<and> (fmt = ''rfc2822'' \<longrightarrow> toString pf' = toString pf) \<longrightarrow>
      generator pf' t d base fmt = generator pf t d base fmt)"
proof -
  have A: "\<not> absent t \<longrightarrow>
      generator pf t d base fmt = join pf d (rotated_name pf (getTime t) base fmt)
      \<and> rotated_name pf (getTime t) base fmt
          = take 200 (base @ ''-'' @ timestamp_of pf (getTime t) fmt @ ''.log'')
      \<and> length (rotated_name pf (getTime t) base fmt) \<le> 200"
    using rotated_name_take [of pf "getTime t" base fmt] rotated_name_bound [of pf "getTime t" base fmt]
    by (simp add: generator_def)
  have B: "absent t \<longrightarrow> generator pf t d base fmt = join pf d (base @ ''.log'')"
    by (simp add: generator_def)
  have C: "join pf' = join pf \<and> toISOString pf' = toISOString pf \<and> toUTCString pf' = toUTCString pf
        \<and> (fmt = ''rfc2822'' \<longrightarrow> toString pf' = toString pf) \<longrightarrow>
      generator pf' t d base fmt = generator pf t d base fmt"
  proof
    assume h: "join pf' = join pf \<and> toISOString pf' = toISOString pf \<and> toUTCString pf' = toUTCString pf
        \<and> (fmt = ''rfc2822'' \<longrightarrow> toString pf' = toString pf)"
    then have "timestamp_of pf' (getTime t) fmt = timestamp_of pf (getTime t) fmt"
      by (intro timestamp_of_cong) simp_all
    with h show "generator pf' t d base fmt = generator pf t d base fmt"
      by (simp add: generator_def rotated_name_def)
  qed
  show ?thesis by (rule conjI [OF A conjI [OF B C]])
qed

theorem generator_name_bounded_witness:
  "\<not> absent (Date 1742646896789)
   \<and> generator example_platform (Date 1742646896789) ''logs'' (replicate 300 CHR ''a'') ''iso''
       = ''logs/'' @ replicate 200 CHR ''a''
   \<and> length (rotated_name example_platform 1742646896789 (replicate 300 CHR ''a'') ''iso'') \<le> 200
   \<and> absent (Number 0)
   \<and> generator example_platform (Number 0) ''logs'' ''app'' ''iso'' = ''logs/app.log''
   \<and> generator full_disk (Date 1742646896789) ''logs'' ''app'' ''rfc2822''
       = generator example_platform (Date 1742646896789) ''logs'' ''app'' ''rfc2822''"
proof -
  note t1 = generator_name_bounded [where t = "Date 1742646896789" and pf = example_platform and d = "''logs''"
      and base = "replicate 300 CHR ''a''" and fmt = "''iso''"]
  note t2 = generator_name_bounded [where t = "Number 0" and pf = example_platform and d = "''logs''"
      and base = "''app''" and fmt = "''iso''"]
  note t3 = generator_name_bounded [where t = "Date 1742646896789" and pf = example_platform and pf' = full_disk
      and d = "''logs''" and base = "''app''" and fmt = "''rfc2822''"]
  have p: "\<not> absent (Date 1742646896789)" and a: "absent (Number 0)" by simp_all
  have same: "join full_disk = join example_platform \<and> toISOString full_disk = toISOString example_platform
      \<and> toUTCString full_disk = toUTCString example_platform
      \<and> (''rfc2822'' = ''rfc2822'' \<longrightarrow> toString full_disk = toString example_platform)"
    by (simp add: full_disk_def)
  from t1 [THEN conjunct1, THEN mp, OF p]
  have c1: "generator example_platform (Date 1742646896789) ''logs'' (replicate 300 CHR ''a'') ''iso''
       = ''logs/'' @ replicate 200 CHR ''a''"
    and c2: "length (rotated_name example_platform 1742646896789 (replicate 300 CHR ''a'') ''iso'') \<le> 200"
    by (simp_all add: example_platform_def)
  from t2 [THEN conjunct2, THEN conjunct1, THEN mp, OF a]
  have c3: "generator example_platform (Number 0) ''logs'' ''app'' ''iso'' = ''logs/app.log''"
    by (simp add: example_platform_def)
  note c4 = t3 [THEN conjunct2, THEN conjunct2, THEN mp, OF same]
  from p c1 c2 a c3 c4 show ?thesis by (intro conjI)
qed

lemma sanitize_utc: "sanitize ''Sat Mar 22 2025 12:34:56 GMT+0000 (Coordinated Universal Time)''
    = ''Sat-Mar-22-2025-12-34-56-GMT-0000-Coordinated-Universal-Time-''"
  by (simp add: sanitize_def is_alnum_def trim_def is_space_def)

lemma sanitize_cdt: "sanitize ''Sat Mar 22 2025 07:34:56 GMT-0500 (Central Daylight Time)''
    = ''Sat-Mar-22-2025-07-34-56-GMT-0500-Central-Daylight-Time-''"
  by (simp add: sanitize_def is_alnum_def trim_def is_space_def)

text \<open>
  Claim C7 as stated fails at the instant zero given as a number: with a base name of 300
  characters the file-name component has 304.  And two calls with the same arguments and
  format \<open>rfc2822\<close> give different paths when the time zone of the process differs.
\<close>

theorem generator_number_zero_and_time_zone:
  "generator example_platform (Number 0) ''logs'' (replicate 300 CHR ''a'') ''iso''
     = join example_platform ''logs'' (replicate 300 CHR ''a'' @ ''.log'')
   \<and> length (replicate 300 CHR ''a'' @ ''.log'') = 304
   \<and> generator example_platform (Date 1742646896789) ''logs'' ''app'' ''rfc2822''
       = ''logs/app-Sat-Mar-22-2025-12-34-56-GMT-0000-Coordinated-Universal-Time-.log''
   \<and> generator other_zone (Date 1742646896789) ''logs'' ''app'' ''rfc2822''
       = ''logs/app-Sat-Mar-22-2025-07-34-56-GMT-0500-Central-Daylight-Time-.log''"
proof -
  have a: "generator example_platform (Number 0) ''logs'' (replicate 300 CHR ''a'') ''iso''
     = join example_platform ''logs'' (replicate 300 CHR ''a'' @ ''.log'')"
    by (simp add: generator_def)
  have b: "length (replicate 300 CHR ''a'' @ ''.log'') = 304" by simp
  have c: "generator example_platform (Date 1742646896789) ''logs'' ''app'' ''rfc2822''
       = ''logs/app-Sat-Mar-22-2025-12-34-56-GMT-0000-Coordinated-Universal-Time-.log''"
    by (simp add: generator_def rotated_name_def timestamp_of_def example_platform_def sanitize_utc)
  have d: "generator other_zone (Date 1742646896789) ''logs'' ''app'' ''rfc2822''
       = ''logs/app-Sat-Mar-22-2025-07-34-56-GMT-0500-Central-Daylight-Time-.log''"
    by (simp add: generator_def rotated_name_def timestamp_of_def other_zone_def example_platform_def sanitize_cdt)
  from a b c d show ?thesis by (intro conjI)
qed

text \<open>
  Claim C9.  With \<open>null\<close> for the instant, \<open>generator\<close> returns the join of the directory and
  \<open>filename.log\<close>, whatever the timestamp format.
\<close>

theorem generator_live_file: "generator pf Null d base fmt = join pf d (base @ ''.log'')"
  by (simp add: generator_def)

text \<open>
  Claim C6.  The claim says that format \<open>epoch\<close> renders the integer part of the milliseconds
  divided by 1000.  At the instant 1500 ms the generator renders 2, the quotient rounded to
  the nearest integer, where the integer part is 1.
\<close>

theorem generator_epoch_rounds_up:
  "generator example_platform (Date 1500) ''logs'' ''app'' ''epoch'' = ''logs/app-2.log''
   \<and> int_toString (1500 div 1000) = ''1''"
  by (simp add: generator_def rotated_name_def timestamp_of_def toFixed0_div1000_def example_platform_def digit_char_def int_toString_def)

section \<open>Properties of the error logger\<close>

lemma log_calls_Nil: "log_calls pf el [] = el"
  by (simp add: log_calls_def)

lemma log_calls_Cons:
  "log_calls pf el ((now, m, e) # calls) = log_calls pf (logger_log pf now el m e) calls"
  by (simp add: log_calls_def)

lemma log_calls_append:
  "log_calls pf el (xs @ ys) = log_calls pf (log_calls pf el xs) ys"
  by (simp add: log_calls_def)

lemma logger_log_below:
  "Suc (length (buffer el)) < bufferSize el \<Longrightarrow>
   logger_log pf now el m e = el\<lparr>buffer := buffer el @ [logMessage pf now m e]\<rparr>"
  by (simp add: logger_log_def Let_def)

lemma logger_log_full:
  "Suc (length (buffer el)) \<ge> bufferSize el \<Longrightarrow>
   logger_log pf now el m e =
     el\<lparr>buffer := [], written := written el @ [sink_of (errorLogFile el) (concat (buffer el @ [logMessage pf now m e]))]\<rparr>"
  by (simp add: logger_log_def Let_def flush_def)

lemma log_calls_below:
  "length (buffer el) + length calls < bufferSize el \<Longrightarrow>
   log_calls pf el calls = el\<lparr>buffer := buffer el @ map ((\<lambda>(now, message, error). logMessage pf now message error)) calls\<rparr>"
proof (induction calls arbitrary: el)
  case Nil
  then show ?case by (simp add: log_calls_Nil)
next
  case (Cons c calls)
  obtain now m e where c: "c = (now, m, e)" by (cases c) auto
  have step: "logger_log pf now el m e = el\<lparr>buffer := buffer el @ [logMessage pf now m e]\<rparr>"
    using Cons.prems by (intro logger_log_below) simp
  have "log_calls pf (el\<lparr>buffer := buffer el @ [logMessage pf now m e]\<rparr>) calls
        = (el\<lparr>buffer := buffer el @ [logMessage pf now m e]\<rparr>)
            \<lparr>buffer := buffer (el\<lparr>buffer := buffer el @ [logMessage pf now m e]\<rparr>) @ map ((\<lambda>(now, message, error). logMessage pf now message error)) calls\<rparr>"
    using Cons.prems by (intro Cons.IH) simp
  then show ?case by (simp add: c log_calls_Cons step)
qed

lemma log_calls_reach:
  assumes "length (buffer el) + length calls = bufferSize el" and "calls \<noteq> []"
  shows "log_calls pf el calls =
     el\<lparr>buffer := [], written := written el @ [sink_of (errorLogFile el) (concat (buffer el @ map ((\<lambda>(now, message, error). logMessage pf now message error)) calls))]\<rparr>"
proof -
  obtain now m e where l: "last calls = (now, m, e)" by (cases "last calls") auto
  have split: "calls = butlast calls @ [(now, m, e)]" using assms(2) l by (metis append_butlast_last_id)
  have below: "length (buffer el) + length (butlast calls) < bufferSize el"
    using assms by (cases calls rule: rev_cases) auto
  have mid: "log_calls pf el (butlast calls) = el\<lparr>buffer := buffer el @ map ((\<lambda>(now, message, error). logMessage pf now message error)) (butlast calls)\<rparr>"
    using below by (rule log_calls_below)
  have full: "Suc (length (buffer (el\<lparr>buffer := buffer el @ map ((\<lambda>(now, message, error). logMessage pf now message error)) (butlast calls)\<rparr>)))
                \<ge> bufferSize (el\<lparr>buffer := buffer el @ map ((\<lambda>(now, message, error). logMessage pf now message error)) (butlast calls)\<rparr>)"
    using assms by (cases calls rule: rev_cases) auto
  have "log_calls pf el calls = logger_log pf now (log_calls pf el (butlast calls)) m e"
    by (subst split) (simp add: log_calls_append log_calls_Cons log_calls_Nil)
  also have "\<dots> = el\<lparr>buffer := [], written := written el @
       [sink_of (errorLogFile el) (concat ((buffer el @ map ((\<lambda>(now, message, error). logMessage pf now message error)) (butlast calls)) @ [logMessage pf now m e]))]\<rparr>"
    unfolding mid by (subst logger_log_full [OF full]) simp
  also have "(buffer el @ map ((\<lambda>(now, message, error). logMessage pf now message error)) (butlast calls)) @ [logMessage pf now m e] = buffer el @ map ((\<lambda>(now, message, error). logMessage pf now message error)) calls"
    by (subst (2) split) simp
  finally show ?thesis .
qed

text \<open>
  Claim C4.  With capacity 100, fewer than 100 \<open>log\<close> calls on a new logger write nothing to the
  sink and leave one line per call in the buffer; the 100th call makes exactly one write,
  the concatenation of the 100 lines, and leaves the buffer empty; a firing of the flush
  timer on a non-empty buffer makes one write of the concatenated buffer and empties it.
  Each line is the ISO instant, \<open>" - "\<close>, the message, \<open>": cause"\<close> when a cause is given and
  truthy, and a newline.
\<close>

theorem error_logger_buffering:
  "(length calls < 100 \<longrightarrow>
      written (log_calls pf (createErrorLogger file 100 ms) calls) = []
      \<and> buffer (log_calls pf (createErrorLogger file 100 ms) calls)
          = map (\<lambda>(now, message, error). logMessage pf now message error) calls)
   \<and> (length calls = 100 \<longrightarrow>
      written (log_calls pf (createErrorLogger file 100 ms) calls)
          = [sink_of file (concat (map (\<lambda>(now, message, error). logMessage pf now message error) calls))]
      \<and> buffer (log_calls pf (createErrorLogger file 100 ms) calls) = [])
   \<and> (buffer el \<noteq> [] \<and> flushInterval el \<longrightarrow>
      written (interval_elapsed el) = written el @ [sink_of (errorLogFile el) (concat (buffer el))]
      \<and> buffer (interval_elapsed el) = [])
   \<and> logMessage pf now message error
       = toISOString pf now @ '' - '' @ message @ (if truthy error then '': '' @ String_of error else [])
           @ [CHR 0x0A]"
proof -
  let ?el0 = "createErrorLogger file 100 ms"
  have a: "length calls < 100 \<Longrightarrow> log_calls pf ?el0 calls = ?el0\<lparr>buffer := buffer ?el0 @ map ((\<lambda>(now, message, error). logMessage pf now message error)) calls\<rparr>"
    by (rule log_calls_below) (simp add: createErrorLogger_def)
  have b: "length calls = 100 \<Longrightarrow> log_calls pf ?el0 calls =
      ?el0\<lparr>buffer := [], written := written ?el0 @ [sink_of (errorLogFile ?el0) (concat (buffer ?el0 @ map ((\<lambda>(now, message, error). logMessage pf now message error)) calls))]\<rparr>"
    by (rule log_calls_reach) (auto simp: createErrorLogger_def)
  show ?thesis
    using a b by (auto simp: createErrorLogger_def interval_elapsed_def flush_def logMessage_def)
qed

theorem error_logger_buffering_witness:
  "length (replicate 99 ((0::int), ''boom'', Undefined)) < 100
   \<and> written (log_calls example_platform (createErrorLogger None 100 60000) (replicate 99 (0, ''boom'', Undefined))) = []
   \<and> length (replicate 100 ((0::int), ''boom'', Thrown (ENOENT ''x''))) = 100
   \<and> written (log_calls example_platform (createErrorLogger None 100 60000) (replicate 100 (0, ''boom'', Thrown (ENOENT ''x''))))
      = [ConsoleError (concat (replicate 100 (''2025-03-22T12:34:56.789Z - boom: Error: ENOENT: no such file or directory, x'' @ [CHR 0x0A])))]
   \<and> buffer (log_calls example_platform (createErrorLogger None 100 60000) (replicate 100 (0, ''boom'', Thrown (ENOENT ''x'')))) = []
   \<and> written (interval_elapsed (logger_log example_platform 0 (createErrorLogger (Some ''errors.log'') 100 60000) ''late'' Undefined))
      = [AppendFile ''errors.log'' (''2025-03-22T12:34:56.789Z - late'' @ [CHR 0x0A])]"
  using error_logger_buffering [of "replicate 99 (0, ''boom'', Undefined)" example_platform None 60000
          "logger_log example_platform 0 (createErrorLogger (Some ''errors.log'') 100 60000) ''late'' Undefined" 0 "''boom''" Undefined]
        error_logger_buffering [of "replicate 100 (0, ''boom'', Thrown (ENOENT ''x''))" example_platform None 60000
          "logger_log example_platform 0 (createErrorLogger (Some ''errors.log'') 100 60000) ''late'' Undefined" 0 "''boom''" Undefined]
  by (simp add: logMessage_def example_platform_def sink_of_def logger_log_def createErrorLogger_def Let_def)

lemma transcript_flush: "transcript (flush el) = transcript el"
  by (simp add: transcript_def flush_def sink_of_def split: option.splits)

lemma transcript_logger_log:
  "transcript (logger_log pf now el message error) = transcript el @ logMessage pf now message error"
proof -
  have "transcript (el\<lparr>buffer := buffer el @ [logMessage pf now message error]\<rparr>)
      = transcript el @ logMessage pf now message error"
    by (simp add: transcript_def)
  then show ?thesis
    by (simp add: logger_log_def Let_def transcript_flush)
qed

section \<open>Properties of the compression worker\<close>

lemma fileExists_iff:
  "fileExists pf fs path = (rejects pf Access path = None \<and> fs path \<noteq> None)"
  by (simp add: fileExists_def awaited_def access_def split: option.splits)

lemma pipelineAsync_ok:
  "pipeline_rejects pf src dest = None \<Longrightarrow> fs src = Some (File c m) \<Longrightarrow> \<forall>t. fs dest \<noteq> Some (Dir t) \<Longrightarrow>
   pipelineAsync pf now fs src dest = (Inr (), fs(dest \<mapsto> File (gzip pf c) (real_of_int now)))"
  by (auto simp: pipelineAsync_def split: option.splits node.splits)

lemma pipelineAsync_dest_dir:
  "pipeline_rejects pf src dest = None \<Longrightarrow> fs dest = Some (Dir t) \<Longrightarrow>
   pipelineAsync pf now fs src dest = (Inl (EISDIR dest), fs)"
  by (simp add: pipelineAsync_def)

lemma pipelineAsync_rejected:
  "pipeline_rejects pf src dest = Some (e, left) \<Longrightarrow>
   pipelineAsync pf now fs src dest
     = (Inl e, (case left of None \<Rightarrow> fs | Some part \<Rightarrow> fs(dest \<mapsto> File part (real_of_int now))))"
  by (simp add: pipelineAsync_def)

text \<open>The pipeline writes at the destination only, and succeeds only by writing the compressed source.\<close>

lemma pipelineAsync_frame:
  "pipelineAsync pf now fs src dest = (r, fs1) \<Longrightarrow> p \<noteq> dest \<Longrightarrow> fs1 p = fs p"
  by (auto simp: pipelineAsync_def split: option.splits node.splits prod.splits)

lemma pipelineAsync_Inr:
  "pipelineAsync pf now fs src dest = (Inr u, fs1) \<Longrightarrow>
   \<exists>c m. fs src = Some (File c m) \<and> fs1 = fs(dest \<mapsto> File (gzip pf c) (real_of_int now))"
  by (auto simp: pipelineAsync_def split: option.splits node.splits prod.splits)

lemma compressFile_try_Inl:
  assumes "compressFile_try pf now fs el src dest = (Inl e, fs', el')" and "src \<noteq> dest"
  shows "el' = el \<and> fs' src = fs src"
proof -
  obtain r fs1 where p: "pipelineAsync pf now fs src dest = (r, fs1)"
    by (cases "pipelineAsync pf now fs src dest") auto
  have fr: "fs1 src = fs src" using pipelineAsync_frame [OF p assms(2)] .
  show ?thesis
    using assms(1) fr
    by (auto simp: compressFile_try_def p awaited_def split: if_splits sum.splits option.splits)
qed

lemma compressFile_try_Inr:
  assumes "compressFile_try pf now fs el src dest = (Inr u, fs', el')" and "src \<noteq> dest"
    and "fs src \<noteq> None" and "fs' src = None"
  shows "\<exists>c m. fs src = Some (File c m) \<and> fs' = (fs(dest \<mapsto> File (gzip pf c) (real_of_int now)))(src := None)"
proof -
  obtain r fs1 where p: "pipelineAsync pf now fs src dest = (r, fs1)"
    by (cases "pipelineAsync pf now fs src dest") auto
  show ?thesis
  proof (cases r)
    case (Inl e)
    with assms p show ?thesis
      by (auto simp: compressFile_try_def awaited_def split: if_splits sum.splits option.splits)
  next
    case (Inr v)
    with p pipelineAsync_Inr [of pf now fs src dest v fs1]
    obtain c m where c: "fs src = Some (File c m)" "fs1 = fs(dest \<mapsto> File (gzip pf c) (real_of_int now))"
      by auto
    with assms p Inr show ?thesis
      by (auto simp: compressFile_try_def awaited_def unlink_def stat_def
          split: if_splits sum.splits option.splits node.splits)
  qed
qed

lemma compressFile_try_ok:
  assumes "fs src = Some (File c m)" and "\<forall>t. fs (src @ ''.gz'') \<noteq> Some (Dir t)"
    and "rejects pf Access src = None" and "rejects pf Stat src = None"
    and "pipeline_rejects pf src (src @ ''.gz'') = None"
    and "rejects pf Access (src @ ''.gz'') = None" and "rejects pf Unlink src = None"
  shows "compressFile_try pf now fs el src (src @ ''.gz'')
     = (Inr (), (fs(src @ ''.gz'' \<mapsto> File (gzip pf c) (real_of_int now)))(src := None), el)"
  using assms
  by (simp add: compressFile_try_def fileExists_iff awaited_def stat_def unlink_def pipelineAsync_ok)

lemma compressFile_try_missing:
  "fs src = None \<Longrightarrow> compressFile_try pf now fs el src dest
     = (Inr (), fs, logger_log pf now el (''Skipping compression, file does not exist: '' @ src) Undefined)"
  by (simp add: compressFile_try_def fileExists_iff)

lemma compressFile_try_stat_rejected:
  "fs src \<noteq> None \<Longrightarrow> rejects pf Access src = None \<Longrightarrow> rejects pf Stat src = Some e \<Longrightarrow>
   compressFile_try pf now fs el src dest = (Inl e, fs, el)"
  by (simp add: compressFile_try_def fileExists_iff awaited_def)

lemma compressFile_try_pipeline_failed:
  assumes "fs src = Some (File c m)" and "rejects pf Access src = None" and "rejects pf Stat src = None"
    and "fst (pipelineAsync pf now fs src dest) = Inl e"
  shows "fst (compressFile_try pf now fs el src dest) = Inl e"
  using assms
  by (cases "pipelineAsync pf now fs src dest")
     (simp add: compressFile_try_def fileExists_iff awaited_def stat_def)

lemma compressFile_try_dest_missing:
  assumes "fs src = Some (File c m)" and "rejects pf Access src = None" and "rejects pf Stat src = None"
    and "fst (pipelineAsync pf now fs src dest) = Inr ()" and "rejects pf Access dest = Some x"
  shows "fst (compressFile_try pf now fs el src dest)
     = Inl (Error (''Compression failed: Destination file '' @ dest @ '' not found''))"
  using assms
  by (cases "pipelineAsync pf now fs src dest")
     (simp add: compressFile_try_def fileExists_iff awaited_def stat_def)

lemma compressFile_try_unlink_rejected:
  assumes "fs src = Some (File c m)" and "rejects pf Access src = None" and "rejects pf Stat src = None"
    and "fst (pipelineAsync pf now fs src dest) = Inr ()" and "rejects pf Access dest = None"
    and "rejects pf Unlink src = Some e"
  shows "fst (compressFile_try pf now fs el src dest) = Inl e"
proof -
  obtain fs1 where p: "pipelineAsync pf now fs src dest = (Inr (), fs1)"
    using assms(4) by (cases "pipelineAsync pf now fs src dest") auto
  from pipelineAsync_Inr [OF p] obtain n where "fs1 dest = Some n" by auto
  with assms p show ?thesis
    by (simp add: compressFile_try_def fileExists_iff awaited_def stat_def)
qed

lemma compressFile_fst: "fst (compressFile pf now fs el src dest) = fst (compressFile_try pf now fs el src dest)"
  by (auto simp: compressFile_def split: prod.splits sum.splits)

lemma compressFile_fs: "fst (snd (compressFile pf now fs el src dest)) = fst (snd (compressFile_try pf now fs el src dest))"
  by (auto simp: compressFile_def split: prod.splits sum.splits)

lemma compressFile_Inr:
  "fst (compressFile_try pf now fs el src dest) = Inr u \<Longrightarrow>
   compressFile pf now fs el src dest = compressFile_try pf now fs el src dest"
  by (auto simp: compressFile_def split: prod.splits sum.splits)

lemma compressFile_Inl:
  assumes "fst (compressFile pf now fs el src dest) = Inl e" and "src \<noteq> dest"
  shows "fst (snd (compressFile pf now fs el src dest)) src = fs src
     \<and> snd (snd (compressFile pf now fs el src dest))
         = logger_log pf now el (''Error compressing file '' @ src) (Thrown e)"
proof -
  obtain r fs' el' where t: "compressFile_try pf now fs el src dest = (r, fs', el')"
    by (cases "compressFile_try pf now fs el src dest") auto
  with assms(1) have r: "r = Inl e" by (simp add: compressFile_fst)
  from compressFile_try_Inl [OF t [unfolded r] assms(2)] have "el' = el" "fs' src = fs src" by auto
  then show ?thesis by (simp add: compressFile_def t r)
qed

lemma compressFile_source_gone:
  assumes "fs src \<noteq> None" and "fst (snd (compressFile pf now fs el src dest)) src = None" and "src \<noteq> dest"
  shows "fst (compressFile pf now fs el src dest) = Inr ()
     \<and> fst (snd (compressFile pf now fs el src dest)) dest
         = Some (File (gzip pf (content (the (fs src)))) (real_of_int now))"
proof -
  obtain r fs' el' where t: "compressFile_try pf now fs el src dest = (r, fs', el')"
    by (cases "compressFile_try pf now fs el src dest") auto
  have gone: "fs' src = None" using assms(2) by (simp add: compressFile_fs t)
  show ?thesis
  proof (cases r)
    case (Inl e)
    from compressFile_try_Inl [OF t [unfolded Inl] assms(3)] gone assms(1) show ?thesis by simp
  next
    case (Inr u)
    from compressFile_try_Inr [OF t [unfolded Inr] assms(3) assms(1) gone] assms(3)
    show ?thesis by (auto simp: compressFile_fst compressFile_fs t Inr)
  qed
qed

text \<open>
  Claim C1.  As amended.  When the source is a regular file, \<open>source.gz\<close> is not a directory and the
  platform rejects none of the calls (\<open>access\<close> and \<open>stat\<close> of the source, the pipeline,
  \<open>access\<close> of the destination, \<open>unlink\<close> of the source), \<open>compressFile\<close> returns normally,
  \<open>source.gz\<close> holds the compressed content of the source, and the source is gone.  When the
  source does not exist, \<open>compressFile\<close> returns normally and leaves the file system as it
  was.  A source that existed and is gone afterwards has its compressed content at
  \<open>source.gz\<close> and the call returned normally: the original is deleted only after the
  destination is there.  When \<open>compressFile\<close> throws, the source is as it was and the error
  logger has received the line \<open>Error compressing file source: cause\<close>; and it throws
  whenever \<open>stat\<close>, the pipeline, the test of the destination or \<open>unlink\<close> fails.
\<close>

theorem compressFile_gz_then_unlink:
  "(fs src = Some (File c m) \<and> (\<forall>t. fs (src @ ''.gz'') \<noteq> Some (Dir t))
      \<and> rejects pf Access src = None \<and> rejects pf Stat src = None
      \<and> pipeline_rejects pf src (src @ ''.gz'') = None
      \<and> rejects pf Access (src @ ''.gz'') = None \<and> rejects pf Unlink src = None \<longrightarrow>
      compressFile pf now fs el src (src @ ''.gz'')
        = (Inr (), (fs(src @ ''.gz'' \<mapsto> File (gzip pf c) (real_of_int now)))(src := None), el))
   \<and> (fs src = None \<longrightarrow>
      fst (compressFile pf now fs el src (src @ ''.gz'')) = Inr ()
      \<and> fst (snd (compressFile pf now fs el src (src @ ''.gz''))) = fs)
   \<and> (fs src \<noteq> None \<and> fst (snd (compressFile pf now fs el src (src @ ''.gz''))) src = None \<longrightarrow>
      fst (compressFile pf now fs el src (src @ ''.gz'')) = Inr ()
      \<and> fst (snd (compressFile pf now fs el src (src @ ''.gz''))) (src @ ''.gz'')
          = Some (File (gzip pf (content (the (fs src)))) (real_of_int now)))
   \<and> (fst (compressFile pf now fs el src (src @ ''.gz'')) = Inl e \<longrightarrow>
      fst (snd (compressFile pf now fs el src (src @ ''.gz''))) src = fs src
      \<and> transcript (snd (snd (compressFile pf now fs el src (src @ ''.gz''))))
          = transcript el @ toISOString pf now @ '' - Error compressing file '' @ src
              @ '': '' @ String_of (Thrown e) @ [CHR 0x0A])
   \<and> (fs src \<noteq> None \<and> rejects pf Access src = None \<and> rejects pf Stat src = Some e1 \<longrightarrow>
      fst (compressFile pf now fs el src (src @ ''.gz'')) = Inl e1)
   \<and> (fs src = Some (File c m) \<and> rejects pf Access src = None \<and> rejects pf Stat src = None
        \<and> fst (pipelineAsync pf now fs src (src @ ''.gz'')) = Inl e2 \<longrightarrow>
      fst (compressFile pf now fs el src (src @ ''.gz'')) = Inl e2)
   \<and> (fs src = Some (File c m) \<and> rejects pf Access src = None \<and> rejects pf Stat src = None
        \<and> fst (pipelineAsync pf now fs src (src @ ''.gz'')) = Inr ()
        \<and> rejects pf Access (src @ ''.gz'') = Some e3 \<longrightarrow>
      fst (compressFile pf now fs el src (src @ ''.gz''))
        = Inl (Error (''Compression failed: Destination file '' @ src @ ''.gz'' @ '' not found'')))
   \<and> (fs src = Some (File c m) \<and> rejects pf Access src = None \<and> rejects pf Stat src = None
        \<and> fst (pipelineAsync pf now fs src (src @ ''.gz'')) = Inr ()
        \<and> rejects pf Access (src @ ''.gz'') = None \<and> rejects pf Unlink src = Some e4 \<longrightarrow>
      fst (compressFile pf now fs el src (src @ ''.gz'')) = Inl e4)"
proof -
  let ?dest = "src @ ''.gz''"
  let ?r = "compressFile pf now fs el src ?dest"
  have ne: "src \<noteq> ?dest" by simp
  have A: "fs src = Some (File c m) \<and> (\<forall>t. fs ?dest \<noteq> Some (Dir t))
      \<and> rejects pf Access src = None \<and> rejects pf Stat src = None
      \<and> pipeline_rejects pf src ?dest = None
      \<and> rejects pf Access ?dest = None \<and> rejects pf Unlink src = None \<longrightarrow>
      ?r = (Inr (), (fs(?dest \<mapsto> File (gzip pf c) (real_of_int now)))(src := None), el)"
    by (simp add: compressFile_def compressFile_try_ok [of fs src c m])
  have B: "fs src = None \<longrightarrow> fst ?r = Inr () \<and> fst (snd ?r) = fs"
    by (simp add: compressFile_def compressFile_try_missing)
  have C: "fs src \<noteq> None \<and> fst (snd ?r) src = None \<longrightarrow>
      fst ?r = Inr () \<and> fst (snd ?r) ?dest = Some (File (gzip pf (content (the (fs src)))) (real_of_int now))"
    using compressFile_source_gone [of fs src pf now el ?dest] ne by blast
  have D: "fst ?r = Inl e \<longrightarrow>
      fst (snd ?r) src = fs src
      \<and> transcript (snd (snd ?r))
          = transcript el @ toISOString pf now @ '' - Error compressing file '' @ src
              @ '': '' @ String_of (Thrown e) @ [CHR 0x0A]"
  proof
    assume h: "fst ?r = Inl e"
    from compressFile_Inl [OF h ne]
    have 1: "fst (snd ?r) src = fs src"
      and 2: "snd (snd ?r) = logger_log pf now el (''Error compressing file '' @ src) (Thrown e)"
      by simp_all
    have "transcript (snd (snd ?r)) = transcript el @ logMessage pf now (''Error compressing file '' @ src) (Thrown e)"
      unfolding 2 by (rule transcript_logger_log)
    with 1 show "fst (snd ?r) src = fs src
      \<and> transcript (snd (snd ?r))
          = transcript el @ toISOString pf now @ '' - Error compressing file '' @ src
              @ '': '' @ String_of (Thrown e) @ [CHR 0x0A]"
      by (simp add: logMessage_def)
  qed
  have E1: "fs src \<noteq> None \<and> rejects pf Access src = None \<and> rejects pf Stat src = Some e1 \<longrightarrow> fst ?r = Inl e1"
    by (simp add: compressFile_fst compressFile_try_stat_rejected)
  have E2: "fs src = Some (File c m) \<and> rejects pf Access src = None \<and> rejects pf Stat src = None
        \<and> fst (pipelineAsync pf now fs src ?dest) = Inl e2 \<longrightarrow> fst ?r = Inl e2"
    by (simp add: compressFile_fst compressFile_try_pipeline_failed [of fs src c m])
  have E3: "fs src = Some (File c m) \<and> rejects pf Access src = None \<and> rejects pf Stat src = None
        \<and> fst (pipelineAsync pf now fs src ?dest) = Inr ()
        \<and> rejects pf Access ?dest = Some e3 \<longrightarrow>
      fst ?r = Inl (Error (''Compression failed: Destination file '' @ src @ ''.gz'' @ '' not found''))"
    using compressFile_try_dest_missing [of fs src c m pf now ?dest e3 el]
    by (simp add: compressFile_fst)
  have E4: "fs src = Some (File c m) \<and> rejects pf Access src = None \<and> rejects pf Stat src = None
        \<and> fst (pipelineAsync pf now fs src ?dest) = Inr ()
        \<and> rejects pf Access ?dest = None \<and> rejects pf Unlink src = Some e4 \<longrightarrow> fst ?r = Inl e4"
    by (simp add: compressFile_fst compressFile_try_unlink_rejected [of fs src c m])
  show ?thesis
    by (rule conjI [OF A conjI [OF B conjI [OF C conjI [OF D conjI [OF E1 conjI [OF E2 conjI [OF E3 E4]]]]]]])
qed

lemma example_platform_accepts:
  "rejects example_platform call path = None" "pipeline_rejects example_platform src dest = None"
  "createStream example_platform a b c = None"
  by (simp_all add: example_platform_def)

lemma full_disk_fields:
  "rejects full_disk call path = None"
  "pipeline_rejects full_disk src dest = Some (Error ''ENOSPC: no space left on device, write'', Some [])"
  "toISOString full_disk now = ''2025-03-22T12:34:56.789Z''"
  by (simp_all add: full_disk_def example_platform_def)

theorem compressFile_gz_then_unlink_witness:
  "example_fs ''logs/app-2.log'' = Some (File ''world'' 2000)
   \<and> compressFile example_platform 5000 example_fs (createErrorLogger None 100 60000) ''logs/app-2.log'' ''logs/app-2.log.gz''
      = (Inr (), (example_fs(''logs/app-2.log.gz'' \<mapsto> File ''gz:world'' 5000))(''logs/app-2.log'' := None),
         createErrorLogger None 100 60000)
   \<and> example_fs ''logs/missing.log'' = None
   \<and> fst (compressFile example_platform 5000 example_fs (createErrorLogger None 100 60000) ''logs/missing.log'' ''logs/missing.log.gz'') = Inr ()
   \<and> fst (snd (compressFile example_platform 5000 example_fs (createErrorLogger None 100 60000) ''logs/missing.log'' ''logs/missing.log.gz'')) = example_fs
   \<and> fst (compressFile full_disk 5000 example_fs (createErrorLogger None 100 60000) ''logs/app-2.log'' ''logs/app-2.log.gz'')
      = Inl (Error ''ENOSPC: no space left on device, write'')
   \<and> fst (snd (compressFile full_disk 5000 example_fs (createErrorLogger None 100 60000) ''logs/app-2.log'' ''logs/app-2.log.gz''))
        ''logs/app-2.log'' = Some (File ''world'' 2000)
   \<and> transcript (snd (snd (compressFile full_disk 5000 example_fs (createErrorLogger None 100 60000) ''logs/app-2.log'' ''logs/app-2.log.gz'')))
      = ''2025-03-22T12:34:56.789Z - Error compressing file logs/app-2.log: Error: ENOSPC: no space left on device, write''
          @ [CHR 0x0A]"
proof -
  let ?el = "createErrorLogger None 100 60000"
  let ?p = "''logs/app-2.log''"
  let ?q = "''logs/missing.log''"
  let ?e = "Error ''ENOSPC: no space left on device, write''"
  have a: "example_fs ?p = Some (File ''world'' 2000) \<and> (\<forall>t. example_fs (?p @ ''.gz'') \<noteq> Some (Dir t))
      \<and> rejects example_platform Access ?p = None \<and> rejects example_platform Stat ?p = None
      \<and> pipeline_rejects example_platform ?p (?p @ ''.gz'') = None
      \<and> rejects example_platform Access (?p @ ''.gz'') = None \<and> rejects example_platform Unlink ?p = None"
    by (simp add: example_fs_def example_platform_accepts)
  have b: "example_fs ?q = None"
    by (simp add: example_fs_def)
  have f: "example_fs ?p = Some (File ''world'' 2000) \<and> rejects full_disk Access ?p = None \<and> rejects full_disk Stat ?p = None
        \<and> fst (pipelineAsync full_disk 5000 example_fs ?p (?p @ ''.gz'')) = Inl ?e"
    by (simp add: example_fs_def full_disk_fields pipelineAsync_def)
  note t1 = compressFile_gz_then_unlink [where fs = example_fs and src = ?p and c = "''world''" and m = 2000
      and pf = example_platform and now = 5000 and el = ?el]
  note t2 = compressFile_gz_then_unlink [where fs = example_fs and src = ?q and pf = example_platform and now = 5000 and el = ?el]
  note t3 = compressFile_gz_then_unlink [where fs = example_fs and src = ?p and c = "''world''" and m = 2000
      and pf = full_disk and now = 5000 and el = ?el and e = ?e and ?e2.0 = ?e]
  have c1: "compressFile example_platform 5000 example_fs ?el ?p (?p @ ''.gz'')
      = (Inr (), (example_fs(?p @ ''.gz'' \<mapsto> File (gzip example_platform ''world'') (real_of_int 5000)))(?p := None), ?el)"
    using t1 [THEN conjunct1] a by (rule mp)
  have c2: "fst (compressFile example_platform 5000 example_fs ?el ?q (?q @ ''.gz'')) = Inr ()
      \<and> fst (snd (compressFile example_platform 5000 example_fs ?el ?q (?q @ ''.gz''))) = example_fs"
    using t2 [THEN conjunct2, THEN conjunct1] b by (rule mp)
  have c3: "fst (compressFile full_disk 5000 example_fs ?el ?p (?p @ ''.gz'')) = Inl ?e"
    using t3 [THEN conjunct2, THEN conjunct2, THEN conjunct2, THEN conjunct2, THEN conjunct2, THEN conjunct1] f
    by (rule mp)
  have c4: "fst (snd (compressFile full_disk 5000 example_fs ?el ?p (?p @ ''.gz''))) ?p = example_fs ?p
      \<and> transcript (snd (snd (compressFile full_disk 5000 example_fs ?el ?p (?p @ ''.gz''))))
          = transcript ?el @ toISOString full_disk 5000 @ '' - Error compressing file '' @ ?p
              @ '': '' @ String_of (Thrown ?e) @ [CHR 0x0A]"
    using t3 [THEN conjunct2, THEN conjunct2, THEN conjunct2, THEN conjunct1] c3 by (rule mp)
  have tr0: "transcript ?el = []" by (simp add: transcript_def createErrorLogger_def)
  from c1 c2 c3 c4 a b show ?thesis
    by (simp add: tr0 full_disk_fields) (simp add: example_platform_def)
qed

text \<open>
  Claim C1 as stated fails where \<open>source.gz\<close> is a directory: the source \<open>logs/app-1.log\<close> is
  a regular file, yet \<open>compressFile\<close> throws \<open>EISDIR\<close> and the file system is unchanged, so no
  destination file is produced and the source stays.
\<close>

theorem compressFile_destination_is_directory:
  "example_fs ''logs/app-1.log'' = Some (File ''hello'' 1000)
   \<and> fst (compressFile example_platform 5000 example_fs (createErrorLogger None 100 60000) ''logs/app-1.log'' (''logs/app-1.log'' @ ''.gz''))
       = Inl (EISDIR ''logs/app-1.log.gz'')
   \<and> fst (snd (compressFile example_platform 5000 example_fs (createErrorLogger None 100 60000) ''logs/app-1.log'' (''logs/app-1.log'' @ ''.gz'')))
       = example_fs"
proof -
  have d: "example_fs ''logs/app-1.log'' = Some (File ''hello'' 1000)" "example_fs ''logs/app-1.log.gz'' = Some (Dir 1000)"
    by (simp_all add: example_fs_def)
  have p: "pipelineAsync example_platform 5000 example_fs ''logs/app-1.log'' ''logs/app-1.log.gz''
      = (Inl (EISDIR ''logs/app-1.log.gz''), example_fs)"
    using d(2) by (simp add: pipelineAsync_dest_dir example_platform_accepts)
  have "compressFile_try example_platform 5000 example_fs (createErrorLogger None 100 60000) ''logs/app-1.log'' ''logs/app-1.log.gz''
      = (Inl (EISDIR ''logs/app-1.log.gz''), example_fs, createErrorLogger None 100 60000)"
    using d(1) by (simp add: compressFile_try_def fileExists_iff awaited_def stat_def example_platform_accepts p)
  with d(1) show ?thesis by (simp add: compressFile_def)
qed

section \<open>Properties of the retention sweeper\<close>














section \<open>The rotated listener and its ledger\<close>

lemma on_rotated_in_ledger: "compressedFiles tr p \<noteq> None \<Longrightarrow> on_rotated tr p = None"
  by (simp add: on_rotated_def)








section \<open>Error isolation\<close>











section \<open>The disabled transport\<close>

text \<open>
  Claim C10.  With \<open>enabled = false\<close> construction returns the pass-through pipeline whatever the
  other options are, and touches nothing.
\<close>

theorem disabled_skips_validation:
  "opt_enabled options = Some False \<Longrightarrow> pinoTransportRotatingFile pf now w options = (Inr PassThrough, w)"
  by (simp add: pinoTransportRotatingFile_def or_default_def)

theorem disabled_skips_validation_witness:
  "opt_enabled broken_options = Some False
   \<and> opt_dir broken_options = None
   \<and> validateSize (or_default ''100K'' (opt_size broken_options)) \<noteq> Inr ()
   \<and> validateInterval (or_default ''1d'' (opt_interval broken_options)) \<noteq> Inr ()
   \<and> validateTimestampFormat (or_default ''iso'' (opt_timestampFormat broken_options)) \<noteq> Inr ()
   \<and> pinoTransportRotatingFile example_platform 5000 example_world broken_options = (Inr PassThrough, example_world)"
proof -
  have e: "opt_enabled broken_options = Some False" by (simp add: broken_options_def)
  have v: "opt_dir broken_options = None"
    "validateSize (or_default ''100K'' (opt_size broken_options)) \<noteq> Inr ()"
    "validateInterval (or_default ''1d'' (opt_interval broken_options)) \<noteq> Inr ()"
    "validateTimestampFormat (or_default ''iso'' (opt_timestampFormat broken_options)) \<noteq> Inr ()"
    by (simp_all add: broken_options_def or_default_def validateSize_def validateInterval_def
        validateTimestampFormat_def exec_num_unit_def is_digit_def parseInt_def digit_val_def validFormats_def)
  from disabled_skips_validation [OF e, of example_platform 5000 example_world] e v
  show ?thesis by (intro conjI)
qed

end
